theory Spec2Isabelle
  imports Main "HOL-Library.Word"
begin

section \<open>Machine types\<close>

text \<open>
  \<^verbatim>\<open>file.c\<close> is kernel code; the types are those of the 64-bit kernel ABI (LP64):
  \<^verbatim>\<open>size_t\<close> is an unsigned and \<^verbatim>\<open>ssize_t\<close>, \<^verbatim>\<open>loff_t\<close> are signed 64-bit integers.
  All three are \<open>64 word\<close>; a signed one is read with \<open>sint\<close> and compared with \<open>\<le>s\<close>.
  In \<^verbatim>\<open>*ppos + len\<close> the usual arithmetic conversions make both operands unsigned
  64-bit, so the sum and the comparison that follows are the unsigned ones of \<open>64 word\<close>.
\<close>

type_synonym byte = "8 word"
type_synonym uint32_t = "32 word"
type_synonym size_t = "64 word"
type_synonym ssize_t = "64 word"
type_synonym loff_t = "64 word"
type_synonym timespec64 = int

definition EFAULT :: ssize_t where
  "EFAULT = 14"

definition ENOSPC :: int where
  "ENOSPC = 28"

definition SSIZE_MAX :: size_t where
  "SSIZE_MAX = 0x7FFFFFFFFFFFFFFF"

section \<open>Data model\<close>

text \<open>
  The declarations of \<^verbatim>\<open>osfs.h\<close> are not among the sources. The records hold the fields
  that \<^verbatim>\<open>file.c\<close> reads or writes. \<^verbatim>\<open>i_size\<close> is a \<^verbatim>\<open>uint32_t\<close>: line 85 takes the
  kernel's type-checked \<^verbatim>\<open>max\<close> of it and \<^verbatim>\<open>(uint32_t)*ppos\<close>. \<^verbatim>\<open>i_block\<close> is the index of
  the file's data block (0: none assigned yet), \<^verbatim>\<open>i_blocks\<close> the count that
  \<^verbatim>\<open>osfs_read\<close> tests. The C fields \<^verbatim>\<open>__i_mtime\<close> and \<^verbatim>\<open>__i_ctime\<close> lose their underscores.
\<close>

record osfs_inode =
  i_size :: uint32_t
  i_blocks :: uint32_t
  i_block :: uint32_t
  i_mtime :: timespec64
  i_ctime :: timespec64

text \<open>The VFS \<^verbatim>\<open>struct inode\<close>: its own size and times, and \<^verbatim>\<open>i_private\<close>.\<close>

record inode =
  vfs_i_size :: loff_t
  vfs_i_mtime :: timespec64
  vfs_i_ctime :: timespec64
  i_private :: osfs_inode

text \<open>
  Kernel memory is a flat store of bytes. \<^verbatim>\<open>data_blocks\<close> is the memory at the pointer
  \<^verbatim>\<open>sb_info->data_blocks\<close>, addressed by the byte offset from that pointer; the offset is
  an \<open>int\<close>, since \<^verbatim>\<open>*ppos\<close> is signed and the code adds it unchecked. The remaining
  fields of \<^verbatim>\<open>struct osfs_sb_info\<close> (the allocator's bookkeeping) are the record's
  extension.
\<close>

type_synonym memory = "int \<Rightarrow> byte"

record osfs_sb_info =
  data_blocks :: memory

definition store_bytes :: "memory \<Rightarrow> int \<Rightarrow> byte list \<Rightarrow> memory" where
  "store_bytes mem a bs =
     (\<lambda>x. if a \<le> x \<and> x < a + int (length bs) then bs ! nat (x - a) else mem x)"

definition load_bytes :: "memory \<Rightarrow> int \<Rightarrow> nat \<Rightarrow> byte list" where
  "load_bytes mem a n = map (\<lambda>i. mem (a + int i)) [0..<n]"

section \<open>The collaborators of \<^verbatim>\<open>file.c\<close>\<close>

text \<open>
  The copy primitives of \<^verbatim>\<open><linux/uaccess.h>\<close> return the number of bytes they could
  \<^emph>\<open>not\<close> copy. A user-space source is the run of bytes readable at the pointer
  (\<open>[]\<close> for a bad pointer), a user-space destination the number of bytes writable
  there. A short copy transfers the accessible prefix. No statement below depends on
  what kernel memory holds after a short \<^verbatim>\<open>copy_from_user\<close>.
\<close>

definition copy_from_user :: "memory \<Rightarrow> int \<Rightarrow> byte list \<Rightarrow> size_t \<Rightarrow> memory \<times> size_t" where
  "copy_from_user mem to from n =
     (let k = min (unat n) (length from)
      in (store_bytes mem to (take k from), n - of_nat k))"

definition copy_to_user :: "nat \<Rightarrow> memory \<Rightarrow> int \<Rightarrow> size_t \<Rightarrow> byte list \<times> size_t" where
  "copy_to_user to mem from n =
     (let k = min (unat n) to
      in (load_bytes mem from k, n - of_nat k))"

text \<open>
  \<^verbatim>\<open>osfs_alloc_data_block(sb_info, &osfs_inode->i_block)\<close> is declared in \<^verbatim>\<open>osfs.h\<close> and
  defined elsewhere. It is a parameter: from the superblock information and the value
  at the pointer it yields its return code, the superblock information it leaves and
  the value it leaves at the pointer.
\<close>

type_synonym 'a allocator =
  "'a osfs_sb_info_scheme \<Rightarrow> uint32_t \<Rightarrow> int \<times> 'a osfs_sb_info_scheme \<times> uint32_t"

section \<open>\<^verbatim>\<open>osfs_read\<close> (file.c, lines 19 to 44)\<close>

text \<open>
  The macro \<^verbatim>\<open>BLOCK_SIZE\<close> is a parameter (a positive \<^verbatim>\<open>int\<close> constant). The result is
  the return value, the new \<^verbatim>\<open>*ppos\<close> and the bytes delivered to the user buffer.
  \<^verbatim>\<open>*ppos >= osfs_inode->i_size\<close> compares a \<^verbatim>\<open>loff_t\<close> with a \<^verbatim>\<open>uint32_t\<close>: signed, at
  64 bits. \<^verbatim>\<open>i_block * BLOCK_SIZE\<close> is a 32-bit unsigned product.
\<close>

definition osfs_read ::
  "nat \<Rightarrow> 'a osfs_sb_info_scheme \<Rightarrow> inode \<Rightarrow> nat \<Rightarrow> size_t \<Rightarrow> loff_t
     \<Rightarrow> ssize_t \<times> loff_t \<times> byte list" where
  "osfs_read BLOCK_SIZE sb_info inode buf len ppos =
     (let osfs_inode = i_private inode in
      if i_blocks osfs_inode = 0 then (0, ppos, [])
      else if ucast (i_size osfs_inode) \<le>s ppos then (0, ppos, [])
      else
        let len = (if ppos + len > ucast (i_size osfs_inode)
                   then ucast (i_size osfs_inode) - ppos else len);
            data_block = uint (i_block osfs_inode * of_nat BLOCK_SIZE) + sint ppos;
            (out, not_copied) = copy_to_user buf (data_blocks sb_info) data_block len
        in if not_copied \<noteq> 0 then (- EFAULT, ppos, out)
           else (len, ppos + len, out))"

section \<open>\<^verbatim>\<open>osfs_write\<close> (file.c, lines 59 to 93)\<close>

text \<open>
  \<open>now\<close> holds the two readings of \<^verbatim>\<open>current_time(inode)\<close>, lines 88 and 89. The result
  is the return value, the new \<^verbatim>\<open>*ppos\<close>, the superblock information and the inode.
  The return code of the allocator is dropped, as line 68 drops it.
\<close>

definition osfs_write ::
  "nat \<Rightarrow> 'a allocator \<Rightarrow> timespec64 \<times> timespec64 \<Rightarrow> 'a osfs_sb_info_scheme \<Rightarrow> inode
     \<Rightarrow> byte list \<Rightarrow> size_t \<Rightarrow> loff_t
     \<Rightarrow> ssize_t \<times> loff_t \<times> 'a osfs_sb_info_scheme \<times> inode" where
  "osfs_write BLOCK_SIZE osfs_alloc_data_block now sb_info inode buf len ppos =
     (let osfs_inode = i_private inode;
          (sb_info, osfs_inode) =
            (if i_block osfs_inode = 0
             then (case osfs_alloc_data_block sb_info (i_block osfs_inode) of
                     (rc, sb_info', block_no) \<Rightarrow> (sb_info', osfs_inode\<lparr>i_block := block_no\<rparr>))
             else (sb_info, osfs_inode));
          len = (if ppos + len > of_nat BLOCK_SIZE then of_nat BLOCK_SIZE - ppos else len);
          data_block = uint (i_block osfs_inode * of_nat BLOCK_SIZE) + sint ppos;
          (mem, not_copied) = copy_from_user (data_blocks sb_info) data_block buf len;
          sb_info = sb_info\<lparr>data_blocks := mem\<rparr>
      in if not_copied \<noteq> 0
         then (- EFAULT, ppos, sb_info, inode\<lparr>i_private := osfs_inode\<rparr>)
         else
           let ppos = ppos + len;
               bytes_written = len;
               osfs_inode = osfs_inode\<lparr>i_size := max (i_size osfs_inode) (ucast ppos)\<rparr>;
               inode = inode\<lparr>vfs_i_size := ucast (i_size osfs_inode)\<rparr>;
               osfs_inode = osfs_inode\<lparr>i_mtime := fst now, i_ctime := fst now\<rparr>;
               inode = inode\<lparr>vfs_i_mtime := snd now, vfs_i_ctime := snd now\<rparr>
           in (bytes_written, ppos, sb_info, inode\<lparr>i_private := osfs_inode\<rparr>))"

section \<open>Notions used in the statements\<close>

text \<open>
  Step 2 of \<^verbatim>\<open>osfs_write\<close> (lines 67 to 69) on its own: the superblock information and the
  inode record after the allocator has been called for a file whose \<^verbatim>\<open>i_block\<close> is 0.
\<close>

definition assign_block ::
  "'a allocator \<Rightarrow> 'a osfs_sb_info_scheme \<Rightarrow> osfs_inode \<Rightarrow> 'a osfs_sb_info_scheme \<times> osfs_inode" where
  "assign_block osfs_alloc_data_block sb_info osfs_inode =
     (if i_block osfs_inode = 0
      then (case osfs_alloc_data_block sb_info (i_block osfs_inode) of
              (rc, sb_info', block_no) \<Rightarrow> (sb_info', osfs_inode\<lparr>i_block := block_no\<rparr>))
      else (sb_info, osfs_inode))"

text \<open>The length that Step 3 of \<^verbatim>\<open>osfs_write\<close> (lines 72 to 74) hands to the copy.\<close>

definition write_len :: "nat \<Rightarrow> size_t \<Rightarrow> loff_t \<Rightarrow> size_t" where
  "write_len BLOCK_SIZE len ppos =
     (if ppos + len > of_nat BLOCK_SIZE then of_nat BLOCK_SIZE - ppos else len)"


text \<open>
  The byte offset of the file's block from \<^verbatim>\<open>data_blocks\<close>, and the \<open>n\<close> bytes stored at
  offset \<open>pos\<close> of that block.
\<close>

definition block_offset :: "nat \<Rightarrow> osfs_inode \<Rightarrow> int" where
  "block_offset BLOCK_SIZE osfs_inode = uint (i_block osfs_inode * of_nat BLOCK_SIZE)"


text \<open>
  The invariant of the metadata record: a file without a block is empty, and no file is
  larger than its one block.
\<close>

definition metadata_inv :: "nat \<Rightarrow> osfs_inode \<Rightarrow> bool" where
  "metadata_inv BLOCK_SIZE osfs_inode \<longleftrightarrow>
     (i_block osfs_inode = 0 \<longrightarrow> i_size osfs_inode = 0) \<and> unat (i_size osfs_inode) \<le> BLOCK_SIZE"

text \<open>
  The components of a result: the return value, the new position, what a read delivered
  to the user buffer, and what a write left as superblock information and inode.
\<close>

definition ret_val :: "'a \<times> 'b \<Rightarrow> 'a" where
  "ret_val res = fst res"

definition new_pos :: "'a \<times> 'b \<times> 'c \<Rightarrow> 'b" where
  "new_pos res = fst (snd res)"

definition delivered :: "'a \<times> 'b \<times> 'c \<Rightarrow> 'c" where
  "delivered res = snd (snd res)"

definition new_sb_info :: "'a \<times> 'b \<times> 'c \<times> 'd \<Rightarrow> 'c" where
  "new_sb_info res = fst (snd (snd res))"

definition new_inode :: "'a \<times> 'b \<times> 'c \<times> 'd \<Rightarrow> 'd" where
  "new_inode res = snd (snd (snd res))"

section \<open>Sample volumes\<close>

text \<open>
  Concrete inputs for the examples: a store whose byte at offset \<open>x\<close> is \<open>x mod 256\<close>, an
  inode with a given size, block count and block index, an allocator that hands out
  block 3 and one that finds no free block and leaves \<^verbatim>\<open>*block_no\<close> as it was.
\<close>

definition sample_disk :: osfs_sb_info where
  "sample_disk = \<lparr>data_blocks = (\<lambda>x. of_int x)\<rparr>"

definition sample_inode :: "uint32_t \<Rightarrow> uint32_t \<Rightarrow> uint32_t \<Rightarrow> inode" where
  "sample_inode sz blocks block =
     \<lparr>vfs_i_size = ucast sz, vfs_i_mtime = 0, vfs_i_ctime = 0,
      i_private = \<lparr>i_size = sz, i_blocks = blocks, i_block = block, i_mtime = 0, i_ctime = 0\<rparr>\<rparr>"

definition alloc_block_3 :: "unit allocator" where
  "alloc_block_3 sb_info block_no = (0, sb_info, 3)"

definition alloc_no_space :: "unit allocator" where
  "alloc_no_space sb_info block_no = (- ENOSPC, sb_info, block_no)"

section \<open>Results, memory and the copy primitives\<close>

lemma results_simps [simp]:
  "ret_val (r, x) = r" "new_pos (r, p, y) = p" "delivered (r, p, out) = out"
  "new_sb_info (r, p, s, i) = s" "new_inode (r, p, s, i) = i"
  by (simp_all add: ret_val_def new_pos_def delivered_def new_sb_info_def new_inode_def)

lemma write_result_collapse:
  "w = (ret_val w, new_pos w, new_sb_info w, new_inode w)"
  by (simp add: ret_val_def new_pos_def new_sb_info_def new_inode_def)

lemma store_bytes_Nil [simp]: "store_bytes mem a [] = mem"
  by (rule ext) (auto simp: store_bytes_def)

lemma length_load_bytes [simp]: "length (load_bytes mem a n) = n"
  by (simp add: load_bytes_def)

lemma copy_from_user_ok:
  "unat n \<le> length from \<Longrightarrow> copy_from_user mem to from n = (store_bytes mem to (take (unat n) from), 0)"
  by (simp add: copy_from_user_def Let_def min_def)

lemma copy_from_user_fault:
  "length from < unat n \<Longrightarrow> snd (copy_from_user mem to from n) \<noteq> 0"
proof -
  assume a: "length from < unat n"
  have "n \<noteq> of_nat (length from)"
  proof
    assume "n = of_nat (length from)"
    then have "unat n = length from mod 2 ^ 64" by (simp add: unat_of_nat)
    also have "\<dots> \<le> length from" by simp
    finally show False using a by simp
  qed
  then show ?thesis using a by (simp add: copy_from_user_def Let_def min_def)
qed




section \<open>Arithmetic of the machine types\<close>

lemma sint_nonneg_iff: "0 \<le> sint (w::'a::len word) \<longleftrightarrow> uint w < 2 ^ (LENGTH('a) - Suc 0)"
proof
  assume a: "0 \<le> sint w"
  show "uint w < 2 ^ (LENGTH('a) - Suc 0)"
  proof (rule ccontr)
    assume "\<not> uint w < 2 ^ (LENGTH('a) - Suc 0)"
    then have "2 ^ (LENGTH('a) - Suc 0) \<le> uint w" by simp
    then have "signed_take_bit (LENGTH('a) - Suc 0) (uint w) \<le> uint w - 2 ^ Suc (LENGTH('a) - Suc 0)"
      by (rule signed_take_bit_int_less_eq)
    moreover have "uint w < 2 ^ Suc (LENGTH('a) - Suc 0)"
      using uint_lt2p [of w] by simp
    moreover have "sint w = signed_take_bit (LENGTH('a) - Suc 0) (uint w)"
      by (rule sint_uint)
    ultimately show False using a by linarith
  qed
next
  assume "uint w < 2 ^ (LENGTH('a) - Suc 0)"
  then have "signed_take_bit (LENGTH('a) - Suc 0) (uint w) = uint w"
    by (intro signed_take_bit_int_eq_self) (auto intro: order_trans [of _ 0])
  then show "0 \<le> sint w" by (simp add: sint_uint)
qed


lemma sle0_iff: "0 \<le>s (p::64 word) \<longleftrightarrow> unat p < 2 ^ 63"
proof -
  have "0 \<le>s p \<longleftrightarrow> uint p < 2 ^ 63" by (simp add: word_sle_eq sint_nonneg_iff)
  also have "\<dots> \<longleftrightarrow> int (unat p) < int (2 ^ 63)" by simp
  also have "\<dots> \<longleftrightarrow> unat p < 2 ^ 63" by (rule of_nat_less_iff)
  finally show ?thesis .
qed


lemma le_SSIZE_MAX_iff: "(len::64 word) \<le> SSIZE_MAX \<longleftrightarrow> unat len < 2 ^ 63"
  unfolding SSIZE_MAX_def by (simp add: word_le_nat_alt) arith

lemma unat_add_small: "unat (p::64 word) < 2 ^ 63 \<Longrightarrow> unat (len::64 word) < 2 ^ 63 \<Longrightarrow> unat (p + len) = unat p + unat len"
  by (simp add: unat_plus_if')

lemma unat_BLOCK_SIZE: "BS < 2 ^ 31 \<Longrightarrow> unat (of_nat BS :: 64 word) = BS"
  by (simp add: unat_of_nat)

lemma unat_lt_32: "unat (s::32 word) < 2 ^ 32"
  using unsigned_less [of s, where 'a = nat] by simp

lemma unat_ucast_32_64: "unat (ucast (s::32 word) :: 64 word) = unat s"
proof -
  have "unat s < 2 ^ 64" using unat_lt_32 [of s] by simp
  then show ?thesis by (simp add: unsigned_ucast_eq take_bit_nat_eq_self)
qed




lemma unat_ucast_64_32: "unat (p::64 word) < 2 ^ 32 \<Longrightarrow> unat (ucast p :: 32 word) = unat p"
  by (simp add: unsigned_ucast_eq take_bit_nat_eq_self)

lemma write_len_fits:
  assumes "BS < 2 ^ 31" "0 \<le>s ppos" "len \<le> SSIZE_MAX" "unat ppos + unat len \<le> BS"
  shows "write_len BS len ppos = len"
proof -
  have "unat (ppos + len) = unat ppos + unat len"
    using assms by (simp add: unat_add_small sle0_iff le_SSIZE_MAX_iff)
  then have "\<not> of_nat BS < ppos + len"
    using assms by (simp add: word_less_nat_alt unat_BLOCK_SIZE)
  then show ?thesis by (simp add: write_len_def)
qed

lemma write_len_clip:
  assumes "BS < 2 ^ 31" "0 \<le>s ppos" "len \<le> SSIZE_MAX" "unat ppos \<le> BS" "BS < unat ppos + unat len"
  shows "unat (write_len BS len ppos) = BS - unat ppos" and "ppos + write_len BS len ppos = of_nat BS"
proof -
  have "unat (ppos + len) = unat ppos + unat len"
    using assms by (simp add: unat_add_small sle0_iff le_SSIZE_MAX_iff)
  then have "of_nat BS < ppos + len"
    using assms by (simp add: word_less_nat_alt unat_BLOCK_SIZE)
  then have w: "write_len BS len ppos = of_nat BS - ppos" by (simp add: write_len_def)
  have "ppos \<le> of_nat BS" using assms by (simp add: word_le_nat_alt unat_BLOCK_SIZE)
  then show "unat (write_len BS len ppos) = BS - unat ppos"
    using assms by (simp add: w unat_sub unat_BLOCK_SIZE)
  show "ppos + write_len BS len ppos = of_nat BS" by (simp add: w)
qed

lemma write_len_beyond:
  assumes "BS < 2 ^ 31" "0 \<le>s ppos" "len \<le> SSIZE_MAX" "BS < unat ppos"
  shows "2 ^ 63 \<le> unat (write_len BS len ppos)"
proof -
  have p: "unat ppos < 2 ^ 63" using assms by (simp add: sle0_iff)
  have "unat (ppos + len) = unat ppos + unat len"
    using assms by (simp add: unat_add_small sle0_iff le_SSIZE_MAX_iff)
  then have "of_nat BS < ppos + len"
    using assms by (simp add: word_less_nat_alt unat_BLOCK_SIZE)
  then have w: "write_len BS len ppos = of_nat BS - ppos" by (simp add: write_len_def)
  have "unat (of_nat BS - ppos) = BS + 2 ^ 64 - unat ppos"
    using assms by (simp add: unat_sub_if_size unat_BLOCK_SIZE word_size)
  then show ?thesis using p by (simp add: w)
qed

section \<open>The two outcomes of \<^verbatim>\<open>osfs_write\<close>\<close>

lemma osfs_write_fault_eq:
  assumes "length buf < unat (write_len BLOCK_SIZE len ppos)"
    and "assign_block alloc sb_info (i_private inode) = (sb1, m1)"
  shows "osfs_write BLOCK_SIZE alloc now sb_info inode buf len ppos =
     (- EFAULT, ppos,
      sb1\<lparr>data_blocks := store_bytes (data_blocks sb1) (block_offset BLOCK_SIZE m1 + sint ppos) buf\<rparr>,
      inode\<lparr>i_private := m1\<rparr>)"
proof -
  have "snd (copy_from_user (data_blocks sb1) (block_offset BLOCK_SIZE m1 + sint ppos) buf (write_len BLOCK_SIZE len ppos)) \<noteq> 0"
    using assms(1) by (rule copy_from_user_fault)
  moreover have "fst (copy_from_user (data_blocks sb1) (block_offset BLOCK_SIZE m1 + sint ppos) buf (write_len BLOCK_SIZE len ppos))
     = store_bytes (data_blocks sb1) (block_offset BLOCK_SIZE m1 + sint ppos) buf"
    using assms(1) by (simp add: copy_from_user_def Let_def min_def)
  ultimately show ?thesis
    using assms(2)
    by (simp add: osfs_write_def assign_block_def [symmetric] write_len_def [symmetric]
        block_offset_def [symmetric] Let_def split_beta del: uminus_add_conv_diff)
qed

lemma osfs_write_ok_eq:
  assumes "unat (write_len BLOCK_SIZE len ppos) \<le> length buf"
    and "assign_block alloc sb_info (i_private inode) = (sb1, m1)"
    and "n = write_len BLOCK_SIZE len ppos"
  shows "osfs_write BLOCK_SIZE alloc now sb_info inode buf len ppos =
     (n, ppos + n,
      sb1\<lparr>data_blocks := store_bytes (data_blocks sb1) (block_offset BLOCK_SIZE m1 + sint ppos) (take (unat n) buf)\<rparr>,
      inode\<lparr>vfs_i_size := ucast (max (i_size m1) (ucast (ppos + n))),
            vfs_i_mtime := snd now, vfs_i_ctime := snd now,
            i_private := m1\<lparr>i_size := max (i_size m1) (ucast (ppos + n)),
                              i_mtime := fst now, i_ctime := fst now\<rparr>\<rparr>)"
  using assms
  by (simp add: osfs_write_def assign_block_def [symmetric] write_len_def [symmetric]
        block_offset_def [symmetric] Let_def split_beta copy_from_user_ok)

lemma assign_block_fields:
  "assign_block alloc sb_info m = (sb1, m1) \<Longrightarrow>
     i_size m1 = i_size m \<and> i_blocks m1 = i_blocks m \<and> i_mtime m1 = i_mtime m \<and> i_ctime m1 = i_ctime m \<and>
     i_block m1 = (if i_block m = 0 then snd (snd (alloc sb_info (i_block m))) else i_block m)"
  by (auto simp: assign_block_def split: if_splits prod.splits)

lemma osfs_write_returns_fault:
  assumes "osfs_write BLOCK_SIZE alloc now sb_info inode buf len ppos = (r, ppos', sb', inode')"
    and "r \<noteq> - EFAULT"
  shows "unat (write_len BLOCK_SIZE len ppos) \<le> length buf"
proof (rule ccontr)
  assume "\<not> unat (write_len BLOCK_SIZE len ppos) \<le> length buf"
  then have f: "length buf < unat (write_len BLOCK_SIZE len ppos)" by simp
  obtain sb1 m1 where "assign_block alloc sb_info (i_private inode) = (sb1, m1)"
    by (cases "assign_block alloc sb_info (i_private inode)")
  from osfs_write_fault_eq [OF f this, of now] assms show False by simp
qed

lemma osfs_write_success_within_block:
  assumes "BLOCK_SIZE < 2 ^ 31" and "0 \<le>s ppos" and "len \<le> SSIZE_MAX"
    and "length buf < 2 ^ 63"
    and "unat (write_len BLOCK_SIZE len ppos) \<le> length buf"
  shows "unat ppos + unat (write_len BLOCK_SIZE len ppos) \<le> BLOCK_SIZE \<and>
     unat (ppos + write_len BLOCK_SIZE len ppos) = unat ppos + unat (write_len BLOCK_SIZE len ppos)"
proof (cases "unat ppos + unat len \<le> BLOCK_SIZE")
  case True
  then have "write_len BLOCK_SIZE len ppos = len" using assms by (simp add: write_len_fits)
  then show ?thesis using True assms by (simp add: unat_add_small sle0_iff le_SSIZE_MAX_iff)
next
  case False
  have "unat ppos \<le> BLOCK_SIZE"
  proof (rule ccontr)
    assume "\<not> unat ppos \<le> BLOCK_SIZE"
    then have "BLOCK_SIZE < unat ppos" by simp
    from write_len_beyond [OF assms(1,2,3) this]
    have "2 ^ 63 \<le> unat (write_len BLOCK_SIZE len ppos)" .
    then show False using assms(4,5) by simp
  qed
  moreover from this False assms have "unat (write_len BLOCK_SIZE len ppos) = BLOCK_SIZE - unat ppos"
    and "ppos + write_len BLOCK_SIZE len ppos = of_nat BLOCK_SIZE"
    by (simp_all add: write_len_clip)
  ultimately show ?thesis using assms(1) by (simp add: unat_BLOCK_SIZE)
qed

section \<open>The outcome of \<^verbatim>\<open>osfs_read\<close> inside the file\<close>



section \<open>Claims about \<^verbatim>\<open>osfs_read\<close>\<close>

text \<open>
  C6, as the claim states it, fails for the block index: \<^verbatim>\<open>osfs_read\<close> does not test
  \<^verbatim>\<open>i_block\<close>. After a write for which the allocator left \<^verbatim>\<open>i_block\<close> at 0, a read at
  position 0 delivers the 2 bytes written; from a file with \<^verbatim>\<open>i_block\<close> 0 and size 10, a
  read of 4 bytes at position 2 delivers 4 bytes.
\<close>

theorem osfs_read_block_index_zero:
  "i_block (i_private (new_inode
      (osfs_write 4096 alloc_no_space (1, 2) sample_disk (sample_inode 0 1 0) [1, 2] 2 0))) = 0
   \<and> osfs_read 4096
        (new_sb_info (osfs_write 4096 alloc_no_space (1, 2) sample_disk (sample_inode 0 1 0) [1, 2] 2 0))
        (new_inode (osfs_write 4096 alloc_no_space (1, 2) sample_disk (sample_inode 0 1 0) [1, 2] 2 0))
        100 100 0 = (2, 2, [1, 2])
   \<and> i_block (i_private (sample_inode 10 1 0)) = 0
   \<and> osfs_read 4096 sample_disk (sample_inode 10 1 0) 100 4 2 = (4, 6, [2, 3, 4, 5])"
proof -
  let ?w = "osfs_write 4096 alloc_no_space (1, 2) sample_disk (sample_inode 0 1 0) [1, 2] 2 0"
  have w: "?w = (2, 2, sample_disk\<lparr>data_blocks := store_bytes (data_blocks sample_disk) 0 [1, 2]\<rparr>,
      \<lparr>vfs_i_size = 2, vfs_i_mtime = 2, vfs_i_ctime = 2,
       i_private = \<lparr>i_size = 2, i_blocks = 1, i_block = 0, i_mtime = 1, i_ctime = 1\<rparr>\<rparr>)"
    by (simp add: osfs_write_def copy_from_user_def sample_inode_def alloc_no_space_def
        Let_def EFAULT_def)
  have r: "osfs_read 4096 (new_sb_info ?w) (new_inode ?w) 100 100 0 = (2, 2, [1, 2])"
    by (simp add: w osfs_read_def copy_to_user_def load_bytes_def store_bytes_def Let_def
        EFAULT_def upt_rec word_sle_eq)
  have d: "osfs_read 4096 sample_disk (sample_inode 10 1 0) 100 4 2 = (4, 6, [2, 3, 4, 5])"
    by (simp add: osfs_read_def copy_to_user_def load_bytes_def sample_disk_def sample_inode_def
        Let_def EFAULT_def upt_rec)
  have b: "i_block (i_private (new_inode ?w)) = 0"
    by (simp add: w)
  have s: "i_block (i_private (sample_inode 10 1 0)) = 0"
    by (simp add: sample_inode_def)
  show ?thesis using b r s d by simp
qed

text \<open>
  C6, amended. A read from a file whose block count \<^verbatim>\<open>i_blocks\<close> is 0 (the test of line
  27), or at a position at or past the recorded size (line 30), copies nothing: it
  returns 0, not an error, delivers no byte and leaves the position where it was.
\<close>

theorem osfs_read_end_of_file:
  assumes "i_blocks (i_private inode) = 0 \<or> ucast (i_size (i_private inode)) \<le>s ppos"
  shows "osfs_read BLOCK_SIZE sb_info inode buf len ppos = (0, ppos, [])"
  using assms by (auto simp: osfs_read_def Let_def)

theorem osfs_read_end_of_file_witness:
  "osfs_read 4096 sample_disk (sample_inode 10 1 1) 100 100 10 = (0, 10, [])
   \<and> osfs_read 4096 sample_disk (sample_inode 0 0 0) 100 100 7 = (0, 7, [])"
proof -
  have "i_blocks (i_private (sample_inode 10 1 1)) = 0
      \<or> ucast (i_size (i_private (sample_inode 10 1 1))) \<le>s (10::64 word)"
    by (simp add: sample_inode_def)
  then have a: "osfs_read 4096 sample_disk (sample_inode 10 1 1) 100 100 10 = (0, 10, [])"
    by (rule osfs_read_end_of_file)
  have "i_blocks (i_private (sample_inode 0 0 0)) = 0
      \<or> ucast (i_size (i_private (sample_inode 0 0 0))) \<le>s (7::64 word)"
    by (simp add: sample_inode_def)
  then have "osfs_read 4096 sample_disk (sample_inode 0 0 0) 100 100 7 = (0, 7, [])"
    by (rule osfs_read_end_of_file)
  with a show ?thesis by simp
qed




section \<open>Claims about \<^verbatim>\<open>osfs_write\<close>\<close>

text \<open>
  In the statements below a write has succeeded when its return value is not \<^verbatim>\<open>-EFAULT\<close>.
  The caller's side of the contract: the position is not negative, the length is one
  that \<^verbatim>\<open>ssize_t\<close> can return, the constant \<^verbatim>\<open>BLOCK_SIZE\<close> is an \<^verbatim>\<open>int\<close>, and where it
  matters the readable run at the source pointer is shorter than \<open>2 ^ 63\<close> bytes, half of
  the address space.
\<close>



text \<open>
  C9. A successful write sets the size to the larger of the previous size and the
  position plus the number of bytes written, so that the size never shrinks; the VFS
  inode's size follows. With size 100, a write of 5 bytes at position 10 leaves size 100.
\<close>

theorem osfs_write_size:
  assumes "BLOCK_SIZE < 2 ^ 31" and "0 \<le>s ppos" and "len \<le> SSIZE_MAX"
    and "length buf < 2 ^ 63"
    and "osfs_write BLOCK_SIZE alloc now sb_info inode buf len ppos = (r, ppos', sb', inode')"
    and "r \<noteq> - EFAULT"
  shows "unat (i_size (i_private inode')) = max (unat (i_size (i_private inode))) (unat ppos + unat r) \<and>
     i_size (i_private inode) \<le> i_size (i_private inode') \<and>
     unat (vfs_i_size inode') = unat (i_size (i_private inode'))"
proof -
  obtain sb1 m1 where a: "assign_block alloc sb_info (i_private inode) = (sb1, m1)"
    by (cases "assign_block alloc sb_info (i_private inode)")
  have ok: "unat (write_len BLOCK_SIZE len ppos) \<le> length buf"
    using assms(5,6) by (rule osfs_write_returns_fault)
  note w = osfs_write_success_within_block [OF assms(1,2,3,4) ok]
  then have "unat (ppos + write_len BLOCK_SIZE len ppos) < 2 ^ 32" using assms(1) by simp
  then have u32: "unat (ucast (ppos + write_len BLOCK_SIZE len ppos) :: 32 word)
       = unat ppos + unat (write_len BLOCK_SIZE len ppos)"
    using w by (simp add: unat_ucast_64_32)
  from osfs_write_ok_eq [OF ok a refl, of now] assms(5) assign_block_fields [OF a] u32
  show ?thesis
    by (auto simp: max_def word_le_nat_alt unat_ucast_32_64)
qed

theorem osfs_write_size_witness:
  "ret_val (osfs_write 4096 alloc_block_3 (1, 2) sample_disk (sample_inode 100 1 1)
       [1, 2, 3, 4, 5] 5 10) = 5
   \<and> i_size (i_private (sample_inode 100 1 1)) = 100
   \<and> i_size (i_private (new_inode (osfs_write 4096 alloc_block_3 (1, 2) sample_disk
       (sample_inode 100 1 1) [1, 2, 3, 4, 5] 5 10))) = 100"
proof -
  let ?w = "osfs_write 4096 alloc_block_3 (1, 2) sample_disk (sample_inode 100 1 1)
       [1, 2, 3, 4, 5] 5 10"
  have h1: "(4096::nat) < 2 ^ 31" by simp
  have h2: "0 \<le>s (10::64 word)" by (simp add: word_sle_eq)
  have h3: "(5::64 word) \<le> SSIZE_MAX" by (simp add: SSIZE_MAX_def)
  have h4: "length [1, 2, 3, 4, 5 :: byte] < 2 ^ 63" by simp
  have r: "ret_val ?w = 5"
    by (simp add: osfs_write_def copy_from_user_def sample_inode_def Let_def EFAULT_def)
  then have h6: "ret_val ?w \<noteq> - EFAULT" by (simp add: EFAULT_def)
  have s: "i_size (i_private (sample_inode 100 1 1)) = 100"
    by (simp add: sample_inode_def)
  from osfs_write_size [OF h1 h2 h3 h4 write_result_collapse [of ?w] h6]
  have "unat (i_size (i_private (new_inode ?w))) = 100"
    by (simp add: r s)
  then show ?thesis using r s by (simp add: word_unat_eq_iff)
qed

text \<open>
  C10, as the claim states it, fails: a write of no bytes at position 100 to an empty
  file returns 0 and leaves the size at 100, not at 0.
\<close>

theorem osfs_write_zero_len_grows_size:
  "ret_val (osfs_write 4096 alloc_block_3 (1, 2) sample_disk (sample_inode 0 1 1) [] 0 100) = 0
   \<and> i_size (i_private (sample_inode 0 1 1)) = 0
   \<and> i_size (i_private (new_inode
        (osfs_write 4096 alloc_block_3 (1, 2) sample_disk (sample_inode 0 1 1) [] 0 100))) = 100"
  by (simp add: osfs_write_def copy_from_user_def sample_inode_def Let_def EFAULT_def)

text \<open>
  C10, amended. A write of length 0 at a position \<open>0 \<le> ppos \<le> BLOCK_SIZE\<close> returns 0 and
  leaves the position unchanged; its copy of no bytes cannot fail. It sets the size to
  the larger of the old size and the position, so the size is unchanged exactly when
  the position is not past it, and it sets both pairs of times to the clock's readings.
\<close>

theorem osfs_write_zero_len:
  assumes "BLOCK_SIZE < 2 ^ 31" and "0 \<le>s ppos" and "unat ppos \<le> BLOCK_SIZE"
    and "osfs_write BLOCK_SIZE alloc now sb_info inode buf 0 ppos = (r, ppos', sb', inode')"
  shows "r = 0 \<and> ppos' = ppos \<and>
     unat (i_size (i_private inode')) = max (unat (i_size (i_private inode))) (unat ppos) \<and>
     i_mtime (i_private inode') = fst now \<and> i_ctime (i_private inode') = fst now \<and>
     vfs_i_mtime inode' = snd now \<and> vfs_i_ctime inode' = snd now"
proof -
  obtain sb1 m1 where a: "assign_block alloc sb_info (i_private inode) = (sb1, m1)"
    by (cases "assign_block alloc sb_info (i_private inode)")
  have z: "(0::64 word) \<le> SSIZE_MAX" by (simp add: SSIZE_MAX_def)
  have w: "write_len BLOCK_SIZE 0 ppos = 0"
    using assms z by (simp add: write_len_fits)
  then have ok: "unat (write_len BLOCK_SIZE 0 ppos) \<le> length buf" by simp
  have "unat ppos < 2 ^ 32" using assms(1,3) by simp
  then have u32: "unat (ucast ppos :: 32 word) = unat ppos" by (simp add: unat_ucast_64_32)
  from osfs_write_ok_eq [OF ok a refl, of now] assms(4) assign_block_fields [OF a] u32 w
  show ?thesis
    by (auto simp: max_def word_le_nat_alt)
qed

theorem osfs_write_zero_len_witness:
  "ret_val (osfs_write 4096 alloc_block_3 (1, 2) sample_disk (sample_inode 100 1 1) [] 0 10) = 0
   \<and> new_pos (osfs_write 4096 alloc_block_3 (1, 2) sample_disk (sample_inode 100 1 1) [] 0 10) = 10
   \<and> i_size (i_private (new_inode
        (osfs_write 4096 alloc_block_3 (1, 2) sample_disk (sample_inode 100 1 1) [] 0 10))) = 100
   \<and> i_mtime (i_private (sample_inode 100 1 1)) = 0
   \<and> i_mtime (i_private (new_inode
        (osfs_write 4096 alloc_block_3 (1, 2) sample_disk (sample_inode 100 1 1) [] 0 10))) = 1"
proof -
  let ?w = "osfs_write 4096 alloc_block_3 (1, 2) sample_disk (sample_inode 100 1 1) [] 0 10"
  have h1: "(4096::nat) < 2 ^ 31" by simp
  have h2: "0 \<le>s (10::64 word)" by (simp add: word_sle_eq)
  have h3: "unat (10::64 word) \<le> 4096" by simp
  have s: "i_size (i_private (sample_inode 100 1 1)) = 100"
    "i_mtime (i_private (sample_inode 100 1 1)) = 0"
    by (simp_all add: sample_inode_def)
  from osfs_write_zero_len [OF h1 h2 h3 write_result_collapse [of ?w]]
  have "ret_val ?w = 0 \<and> new_pos ?w = 10 \<and> unat (i_size (i_private (new_inode ?w))) = 100
      \<and> i_mtime (i_private (new_inode ?w)) = 1"
    by (simp add: s)
  then show ?thesis using s by (simp add: word_unat_eq_iff)
qed

text \<open>
  C2, as the claim states it, fails for the block assignment: the first write to a file
  without a block calls the allocator before it copies, and when the copy then fails
  the file keeps the block index the allocator stored.
\<close>

theorem osfs_write_fault_assigns_block:
  "ret_val (osfs_write 4096 alloc_block_3 (1, 2) sample_disk (sample_inode 0 1 0) [] 5 0) = - EFAULT
   \<and> i_block (i_private (sample_inode 0 1 0)) = 0
   \<and> i_block (i_private (new_inode
        (osfs_write 4096 alloc_block_3 (1, 2) sample_disk (sample_inode 0 1 0) [] 5 0))) = 3"
  by (simp add: osfs_write_def copy_from_user_def sample_inode_def alloc_block_3_def Let_def
      del: uminus_add_conv_diff)

text \<open>
  C2, amended. When the copy fails (the source has fewer readable bytes than the write
  asks for), the write returns \<^verbatim>\<open>-EFAULT\<close> and leaves the position, the size, the times of
  both inodes and \<^verbatim>\<open>i_blocks\<close> as they were. \<^verbatim>\<open>i_block\<close> is as it was when it was not 0;
  when it was 0, it is what the allocator left there.
\<close>

theorem osfs_write_fault:
  assumes "length buf < unat (write_len BLOCK_SIZE len ppos)"
    and "osfs_write BLOCK_SIZE alloc now sb_info inode buf len ppos = (r, ppos', sb', inode')"
  shows "r = - EFAULT \<and> ppos' = ppos \<and>
     i_size (i_private inode') = i_size (i_private inode) \<and>
     i_mtime (i_private inode') = i_mtime (i_private inode) \<and>
     i_ctime (i_private inode') = i_ctime (i_private inode) \<and>
     vfs_i_size inode' = vfs_i_size inode \<and>
     vfs_i_mtime inode' = vfs_i_mtime inode \<and>
     vfs_i_ctime inode' = vfs_i_ctime inode \<and>
     i_blocks (i_private inode') = i_blocks (i_private inode) \<and>
     i_block (i_private inode') =
       (if i_block (i_private inode) = 0 then snd (snd (alloc sb_info (i_block (i_private inode))))
        else i_block (i_private inode))"
proof -
  obtain sb1 m1 where a: "assign_block alloc sb_info (i_private inode) = (sb1, m1)"
    by (cases "assign_block alloc sb_info (i_private inode)")
  from osfs_write_fault_eq [OF assms(1) a, of now] assms(2) assign_block_fields [OF a]
  show ?thesis by (auto simp del: uminus_add_conv_diff)
qed

theorem osfs_write_fault_witness:
  "ret_val (osfs_write 4096 alloc_block_3 (1, 2) sample_disk (sample_inode 10 1 1) [] 5 0) = - EFAULT
   \<and> new_pos (osfs_write 4096 alloc_block_3 (1, 2) sample_disk (sample_inode 10 1 1) [] 5 0) = 0
   \<and> new_inode (osfs_write 4096 alloc_block_3 (1, 2) sample_disk (sample_inode 10 1 1) [] 5 0)
      = sample_inode 10 1 1"
proof -
  let ?w = "osfs_write 4096 alloc_block_3 (1, 2) sample_disk (sample_inode 10 1 1) [] 5 0"
  have h: "length ([]::byte list) < unat (write_len 4096 5 0)"
    by (simp add: write_len_def)
  have s: "i_block (i_private (sample_inode 10 1 1)) \<noteq> 0"
    by (simp add: sample_inode_def)
  from osfs_write_fault [OF h write_result_collapse [of ?w]] s
  have "ret_val ?w = - EFAULT \<and> new_pos ?w = 0
      \<and> vfs_i_size (new_inode ?w) = vfs_i_size (sample_inode 10 1 1)
      \<and> vfs_i_mtime (new_inode ?w) = vfs_i_mtime (sample_inode 10 1 1)
      \<and> vfs_i_ctime (new_inode ?w) = vfs_i_ctime (sample_inode 10 1 1)
      \<and> i_private (new_inode ?w) = i_private (sample_inode 10 1 1)"
    by simp
  then show ?thesis by simp
qed

text \<open>
  C3, as the claim states it, fails: with an allocator that returns \<^verbatim>\<open>-ENOSPC\<close> and leaves
  \<^verbatim>\<open>i_block\<close> at 0, a write of 2 bytes to an empty file returns 2, and the size becomes 2.
\<close>

theorem osfs_write_not_out_of_space:
  "fst (alloc_no_space sample_disk 0) = - ENOSPC
   \<and> ret_val (osfs_write 4096 alloc_no_space (1, 2) sample_disk (sample_inode 0 1 0) [1, 2] 2 0) = 2
   \<and> i_block (i_private (new_inode
        (osfs_write 4096 alloc_no_space (1, 2) sample_disk (sample_inode 0 1 0) [1, 2] 2 0))) = 0
   \<and> i_size (i_private (new_inode
        (osfs_write 4096 alloc_no_space (1, 2) sample_disk (sample_inode 0 1 0) [1, 2] 2 0))) = 2"
  by (simp add: osfs_write_def copy_from_user_def sample_inode_def alloc_no_space_def
      Let_def EFAULT_def)

text \<open>
  C3, amended. \<^verbatim>\<open>osfs_write\<close> does not look at what the allocator returns. When the
  allocator, called for a file whose \<^verbatim>\<open>i_block\<close> is 0, leaves 0 there, whatever it
  returns, the write goes on against block 0: \<^verbatim>\<open>i_block\<close> stays 0, and the write returns
  the clipped length with the bytes stored at offset \<open>ppos\<close> from \<^verbatim>\<open>data_blocks\<close> and the size
  raised to the new position, or \<^verbatim>\<open>-EFAULT\<close> with position and size unchanged when the
  copy fails.
\<close>

theorem osfs_write_ignores_allocator_failure:
  assumes "i_block (i_private inode) = 0"
    and "alloc sb_info 0 = (rc, sb1, 0)"
    and "osfs_write BLOCK_SIZE alloc now sb_info inode buf len ppos = (r, ppos', sb', inode')"
  shows "i_block (i_private inode') = 0 \<and>
     (if unat (write_len BLOCK_SIZE len ppos) \<le> length buf
      then r = write_len BLOCK_SIZE len ppos \<and> ppos' = ppos + r \<and>
           i_size (i_private inode') = max (i_size (i_private inode)) (ucast ppos') \<and>
           data_blocks sb' = store_bytes (data_blocks sb1) (sint ppos) (take (unat r) buf)
      else r = - EFAULT \<and> ppos' = ppos \<and> i_size (i_private inode') = i_size (i_private inode))"
proof -
  have a: "assign_block alloc sb_info (i_private inode) = (sb1, (i_private inode)\<lparr>i_block := 0\<rparr>)"
    using assms(1,2) by (simp add: assign_block_def)
  have b: "block_offset BLOCK_SIZE ((i_private inode)\<lparr>i_block := 0\<rparr>) = 0"
    by (simp add: block_offset_def)
  show ?thesis
  proof (cases "unat (write_len BLOCK_SIZE len ppos) \<le> length buf")
    case True
    from osfs_write_ok_eq [OF True a refl, of now] assms(3) b True
    show ?thesis by auto
  next
    case False
    then have "length buf < unat (write_len BLOCK_SIZE len ppos)" by simp
    from osfs_write_fault_eq [OF this a, of now] assms(3) False
    show ?thesis by (auto simp del: uminus_add_conv_diff)
  qed
qed

theorem osfs_write_ignores_allocator_failure_witness:
  "alloc_no_space sample_disk 0 = (- ENOSPC, sample_disk, 0)
   \<and> new_pos (osfs_write 4096 alloc_no_space (1, 2) sample_disk (sample_inode 0 1 0) [1, 2] 2 0) = 2
   \<and> data_blocks (new_sb_info
        (osfs_write 4096 alloc_no_space (1, 2) sample_disk (sample_inode 0 1 0) [1, 2] 2 0))
      = store_bytes (data_blocks sample_disk) 0 [1, 2]"
proof -
  let ?w = "osfs_write 4096 alloc_no_space (1, 2) sample_disk (sample_inode 0 1 0) [1, 2] 2 0"
  have h1: "i_block (i_private (sample_inode 0 1 0)) = 0"
    by (simp add: sample_inode_def)
  have h2: "alloc_no_space sample_disk 0 = (- ENOSPC, sample_disk, 0)"
    by (simp add: alloc_no_space_def)
  have l: "write_len 4096 2 0 = 2"
    by (simp add: write_len_def)
  from osfs_write_ignores_allocator_failure [OF h1 h2 write_result_collapse [of ?w]]
  show ?thesis using h2 by (simp add: l)
qed

text \<open>
  C4, as the claim states it, fails: a write of 5 bytes at position 4096, the end of a
  block of 4096 bytes, is not rejected. It returns 0, raises the size from 100 to 4096
  and sets the times.
\<close>

theorem osfs_write_at_block_end_accepted:
  "ret_val (osfs_write 4096 alloc_block_3 (1, 2) sample_disk (sample_inode 100 1 1)
       [1, 2, 3, 4, 5] 5 4096) = 0
   \<and> i_size (i_private (new_inode (osfs_write 4096 alloc_block_3 (1, 2) sample_disk
       (sample_inode 100 1 1) [1, 2, 3, 4, 5] 5 4096))) = 4096
   \<and> i_mtime (i_private (new_inode (osfs_write 4096 alloc_block_3 (1, 2) sample_disk
       (sample_inode 100 1 1) [1, 2, 3, 4, 5] 5 4096))) = 1"
  by (simp add: osfs_write_def copy_from_user_def sample_inode_def Let_def EFAULT_def)

text \<open>
  C4, amended. A write at position \<^verbatim>\<open>BLOCK_SIZE\<close> is accepted: its length is clipped to 0,
  it returns 0 with the position unchanged, sets the size to the larger of the old size
  and \<^verbatim>\<open>BLOCK_SIZE\<close>, and sets the times. \<^verbatim>\<open>osfs_write\<close> has no boundary error.
\<close>

theorem osfs_write_at_block_end:
  assumes "BLOCK_SIZE < 2 ^ 31" and "unat ppos = BLOCK_SIZE" and "len \<le> SSIZE_MAX"
    and "osfs_write BLOCK_SIZE alloc now sb_info inode buf len ppos = (r, ppos', sb', inode')"
  shows "r = 0 \<and> ppos' = ppos \<and>
     unat (i_size (i_private inode')) = max (unat (i_size (i_private inode))) BLOCK_SIZE \<and>
     i_mtime (i_private inode') = fst now \<and> i_ctime (i_private inode') = fst now \<and>
     vfs_i_mtime inode' = snd now \<and> vfs_i_ctime inode' = snd now"
proof -
  obtain sb1 m1 where a: "assign_block alloc sb_info (i_private inode) = (sb1, m1)"
    by (cases "assign_block alloc sb_info (i_private inode)")
  have p: "0 \<le>s ppos" using assms(1,2) by (simp add: sle0_iff)
  have "unat (write_len BLOCK_SIZE len ppos) = 0"
  proof (cases "unat len = 0")
    case True
    then have "write_len BLOCK_SIZE len ppos = len"
      using assms p by (simp add: write_len_fits)
    then show ?thesis using True by simp
  next
    case False
    then have "BLOCK_SIZE < unat ppos + unat len" using assms(2) by simp
    from write_len_clip(1) [OF assms(1) p assms(3) _ this] assms(2) show ?thesis by simp
  qed
  then have w: "write_len BLOCK_SIZE len ppos = 0" by (simp add: unat_eq_0)
  then have ok: "unat (write_len BLOCK_SIZE len ppos) \<le> length buf" by simp
  have "unat ppos < 2 ^ 32" using assms(1,2) by simp
  then have u32: "unat (ucast ppos :: 32 word) = unat ppos" by (simp add: unat_ucast_64_32)
  from osfs_write_ok_eq [OF ok a refl, of now] assms(2,4) assign_block_fields [OF a] u32 w
  show ?thesis
    by (auto simp: max_def word_le_nat_alt)
qed

theorem osfs_write_at_block_end_witness:
  "ret_val (osfs_write 4096 alloc_block_3 (1, 2) sample_disk (sample_inode 4096 1 1)
       [1, 2, 3, 4, 5] 5 4096) = 0
   \<and> new_pos (osfs_write 4096 alloc_block_3 (1, 2) sample_disk (sample_inode 4096 1 1)
       [1, 2, 3, 4, 5] 5 4096) = 4096
   \<and> i_size (i_private (new_inode (osfs_write 4096 alloc_block_3 (1, 2) sample_disk
       (sample_inode 4096 1 1) [1, 2, 3, 4, 5] 5 4096))) = 4096"
proof -
  let ?w = "osfs_write 4096 alloc_block_3 (1, 2) sample_disk (sample_inode 4096 1 1)
       [1, 2, 3, 4, 5] 5 4096"
  have h1: "(4096::nat) < 2 ^ 31" by simp
  have h2: "unat (4096::64 word) = 4096" by simp
  have h3: "(5::64 word) \<le> SSIZE_MAX" by (simp add: SSIZE_MAX_def)
  have s: "i_size (i_private (sample_inode 4096 1 1)) = 4096"
    by (simp add: sample_inode_def)
  from osfs_write_at_block_end [OF h1 h2 h3 write_result_collapse [of ?w]]
  have "ret_val ?w = 0 \<and> new_pos ?w = 4096 \<and> unat (i_size (i_private (new_inode ?w))) = 4096"
    by (simp add: s)
  then show ?thesis by (simp add: word_unat_eq_iff)
qed

text \<open>
  C5, as the claim states it, fails: when the allocator leaves \<^verbatim>\<open>i_block\<close> at 0, a write
  of 2 bytes to an empty file leaves a file of size 2 without a block.
\<close>

theorem osfs_write_breaks_metadata_inv:
  "metadata_inv 4096 (i_private (sample_inode 0 1 0))
   \<and> \<not> metadata_inv 4096 (i_private (new_inode
        (osfs_write 4096 alloc_no_space (1, 2) sample_disk (sample_inode 0 1 0) [1, 2] 2 0)))"
  by (simp add: metadata_inv_def osfs_write_def copy_from_user_def sample_inode_def
      alloc_no_space_def Let_def EFAULT_def)

text \<open>
  C5, amended. A write keeps the invariant of the metadata (a file whose \<^verbatim>\<open>i_block\<close> is 0
  has size 0, and no size exceeds \<^verbatim>\<open>BLOCK_SIZE\<close>) when the file has a block already or
  the allocator leaves an index other than 0 in \<^verbatim>\<open>i_block\<close>, whether the copy succeeds or
  fails. \<^verbatim>\<open>osfs_read\<close> assigns to no field of the metadata; its result holds none.
\<close>

theorem osfs_write_preserves_metadata_inv:
  assumes "BLOCK_SIZE < 2 ^ 31" and "0 \<le>s ppos" and "len \<le> SSIZE_MAX"
    and "length buf < 2 ^ 63"
    and "metadata_inv BLOCK_SIZE (i_private inode)"
    and "i_block (i_private inode) = 0 \<longrightarrow> snd (snd (alloc sb_info (i_block (i_private inode)))) \<noteq> 0"
    and "osfs_write BLOCK_SIZE alloc now sb_info inode buf len ppos = (r, ppos', sb', inode')"
  shows "metadata_inv BLOCK_SIZE (i_private inode')"
proof -
  obtain sb1 m1 where a: "assign_block alloc sb_info (i_private inode) = (sb1, m1)"
    by (cases "assign_block alloc sb_info (i_private inode)")
  note f = assign_block_fields [OF a]
  have nz: "i_block m1 \<noteq> 0" using f assms(6) by (auto split: if_splits)
  show ?thesis
  proof (cases "unat (write_len BLOCK_SIZE len ppos) \<le> length buf")
    case True
    note w = osfs_write_success_within_block [OF assms(1,2,3,4) True]
    then have "unat (ppos + write_len BLOCK_SIZE len ppos) < 2 ^ 32" using assms(1) by simp
    then have u32: "unat (ucast (ppos + write_len BLOCK_SIZE len ppos) :: 32 word)
         = unat ppos + unat (write_len BLOCK_SIZE len ppos)"
      using w by (simp add: unat_ucast_64_32)
    from osfs_write_ok_eq [OF True a refl, of now] assms(5,7) f nz u32 w
    show ?thesis by (auto simp: metadata_inv_def max_def)
  next
    case False
    then have "length buf < unat (write_len BLOCK_SIZE len ppos)" by simp
    from osfs_write_fault_eq [OF this a, of now] assms(5,7) f nz
    show ?thesis by (auto simp: metadata_inv_def simp del: uminus_add_conv_diff)
  qed
qed

theorem osfs_write_preserves_metadata_inv_witness:
  "metadata_inv 4096 (i_private (sample_inode 0 1 0))
   \<and> metadata_inv 4096 (i_private (new_inode
        (osfs_write 4096 alloc_block_3 (1, 2) sample_disk (sample_inode 0 1 0) [1, 2] 2 0)))
   \<and> i_size (i_private (new_inode
        (osfs_write 4096 alloc_block_3 (1, 2) sample_disk (sample_inode 0 1 0) [1, 2] 2 0))) = 2"
proof -
  let ?w = "osfs_write 4096 alloc_block_3 (1, 2) sample_disk (sample_inode 0 1 0) [1, 2] 2 0"
  have h1: "(4096::nat) < 2 ^ 31" by simp
  have h2: "0 \<le>s (0::64 word)" by simp
  have h3: "(2::64 word) \<le> SSIZE_MAX" by (simp add: SSIZE_MAX_def)
  have h4: "length [1, 2 :: byte] < 2 ^ 63" by simp
  have h5: "metadata_inv 4096 (i_private (sample_inode 0 1 0))"
    by (simp add: metadata_inv_def sample_inode_def)
  have h6: "i_block (i_private (sample_inode 0 1 0)) = 0 \<longrightarrow>
      snd (snd (alloc_block_3 sample_disk (i_block (i_private (sample_inode 0 1 0))))) \<noteq> 0"
    by (simp add: alloc_block_3_def)
  have "i_size (i_private (new_inode ?w)) = 2"
    by (simp add: osfs_write_def copy_from_user_def sample_inode_def alloc_block_3_def
        Let_def EFAULT_def)
  with h5 osfs_write_preserves_metadata_inv [OF h1 h2 h3 h4 h5 h6 write_result_collapse [of ?w]]
  show ?thesis by simp
qed

section \<open>Writing, then reading\<close>

text \<open>
  C1, as the claim states it, fails: a write is clipped at the end of the block, and
  the read that follows returns only what was written. Of 200 bytes written at position
  4000 of a block of 4096 bytes, 96 are stored and 96 are read back.
\<close>

theorem write_read_short_write:
  "ret_val (osfs_write 4096 alloc_block_3 (1, 2) sample_disk (sample_inode 0 1 1)
       (replicate 200 7) 200 4000) = 96
   \<and> ret_val (osfs_read 4096
        (new_sb_info (osfs_write 4096 alloc_block_3 (1, 2) sample_disk (sample_inode 0 1 1)
           (replicate 200 7) 200 4000))
        (new_inode (osfs_write 4096 alloc_block_3 (1, 2) sample_disk (sample_inode 0 1 1)
           (replicate 200 7) 200 4000))
        200 200 4000) = 96
   \<and> delivered (osfs_read 4096
        (new_sb_info (osfs_write 4096 alloc_block_3 (1, 2) sample_disk (sample_inode 0 1 1)
           (replicate 200 7) 200 4000))
        (new_inode (osfs_write 4096 alloc_block_3 (1, 2) sample_disk (sample_inode 0 1 1)
           (replicate 200 7) 200 4000))
        200 200 4000) \<noteq> replicate 200 7"
proof -
  let ?w = "osfs_write 4096 alloc_block_3 (1, 2) sample_disk (sample_inode 0 1 1)
       (replicate 200 7) 200 4000"
  let ?r = "osfs_read 4096 (new_sb_info ?w) (new_inode ?w) 200 200 4000"
  have w: "ret_val ?w = 96" "i_size (i_private (new_inode ?w)) = 4096"
    "i_blocks (i_private (new_inode ?w)) = 1"
    by (simp_all add: osfs_write_def copy_from_user_def sample_inode_def Let_def EFAULT_def)
  have r: "ret_val ?r = 96 \<and> length (delivered ?r) = 96"
    by (simp add: osfs_read_def copy_to_user_def w Let_def EFAULT_def)
  then have "delivered ?r \<noteq> replicate 200 7" by auto
  with w r show ?thesis by simp
qed



end
